theory Spec2Isabelle
  imports Main "HOL-Library.Word"
begin

section \<open>The sub-workflow handler of flytepropeller\<close>

text \<open>
  This theory embeds \<^verbatim>\<open>pkg/controller/nodes/subworkflow/subworkflow.go\<close>: the
  handler that starts a nested workflow, drives it through the recursive node executor,
  turns the aggregate result into a transition of the enclosing node, copies the outputs
  and runs the failure node.

  Every Go function of the file is one HOL function of the same name. The calls to the
  collaborators (executor, node lookup, data store, state writer, input reader, re-enqueue
  callback) are made visible in two ways: what a collaborator answers is a field of a
  parameter record, and the fact that it was called is an entry appended to the
  \<open>trace\<close> of the \<open>world\<close>. The status of the enclosing node is an object in
  memory: what is written to it is seen in \<open>NodeStatus_of\<close> of the \<open>world\<close>, not in
  the trace. A Go result pair \<^verbatim>\<open>(value, err)\<close> whose value is
  only read when \<^verbatim>\<open>err == nil\<close> is a sum \<open>error + value\<close>; a nil pointer
  dereference is the outcome \<open>Panic\<close>.
\<close>

subsection \<open>Values shared with the collaborating packages\<close>

type_synonym NodeID = string
type_synonym WorkflowID = string
type_synonym DataReference = string
type_synonym LiteralMap = "(string \<times> string) list"
type_synonym Binding = "string \<times> string"

text \<open>A Go \<^verbatim>\<open>error\<close> value, known by its message; \<open>error_Error\<close> is its method
  \<^verbatim>\<open>Error()\<close>.\<close>

datatype error = GoError string

fun error_Error :: "error \<Rightarrow> string" where
  "error_Error (GoError m) = m"

text \<open>What a Go function does when it does not return: a nil dereference panics.\<close>

datatype 'a outcome = Panic | Return 'a

text \<open>\<^verbatim>\<open>core.ExecutionError\<close> of flyteidl, with the fields this package fills.\<close>

datatype ExecutionError_Kind = ExecutionError_UNKNOWN | ExecutionError_USER | ExecutionError_SYSTEM

record ExecutionError =
  Code :: string
  Message :: string
  Kind :: ExecutionError_Kind

subsection \<open>Package executors: the aggregate result of the recursive executor\<close>

text \<open>
  Modelled from the spec: package \<^verbatim>\<open>executors\<close> is not among the sources. The spec
  (4.3, 6) says that the recursive executor returns an aggregate state classified into
  exactly one of Failed, Complete, PartiallyComplete and Running (the default). The
  source names the phase \<^verbatim>\<open>NodePhaseRunning\<close> and the three tests
  \<^verbatim>\<open>HasFailed\<close>, \<^verbatim>\<open>IsComplete\<close> and \<^verbatim>\<open>PartiallyComplete\<close>;
  \<open>NodePhaseOther\<close> stands for every further value of the enumeration (pending, queued,
  undefined, ...), for which none of the three tests holds.
\<close>

datatype NodePhase =
    NodePhaseRunning
  | NodePhaseSuccess
  | NodePhaseComplete
  | NodePhaseFailed
  | NodePhaseOther nat

record NodeStatus =
  NodePhase :: NodePhase
  Err :: "ExecutionError option"

definition HasFailed :: "NodeStatus \<Rightarrow> bool" where
  "HasFailed n = (NodePhase n = NodePhaseFailed)"

definition IsComplete :: "NodeStatus \<Rightarrow> bool" where
  "IsComplete n = (NodePhase n = NodePhaseComplete)"

definition PartiallyComplete :: "NodeStatus \<Rightarrow> bool" where
  "PartiallyComplete n = (NodePhase n = NodePhaseSuccess)"

subsection \<open>Package handler: phase infos and transitions\<close>

text \<open>
  Modelled from the spec: package \<^verbatim>\<open>handler\<close> is not among the sources. The spec (3, 6)
  describes a Transition as an ephemeral phase change, one of Running, Failing (error),
  Failed (error), Succeeded (with an optional OutputInfo), or the "unknown" transition, in
  which no phase decision is made. A phase info is the phase, the error, the execution
  info and a reason; its time stamp is left out, nothing in this package reads it.
\<close>

datatype EPhase =
    EPhaseUndefined
  | EPhaseRunning
  | EPhaseSuccess
  | EPhaseFailing
  | EPhaseFailed

record OutputInfo =
  OutputURI :: DataReference

record ExecutionInfo =
  OutputInfo :: "OutputInfo option"

record PhaseInfo =
  GetPhase :: EPhase
  GetErr :: "ExecutionError option"
  GetInfo :: "ExecutionInfo option"
  GetReason :: string

datatype TransitionType = TransitionTypeEphemeral | TransitionTypeBarrier

record Transition =
  ttype :: TransitionType
  tinfo :: PhaseInfo

definition phaseInfo :: "EPhase \<Rightarrow> ExecutionInfo option \<Rightarrow> ExecutionError option \<Rightarrow> string \<Rightarrow> PhaseInfo" where
  "phaseInfo p i e r = \<lparr>GetPhase = p, GetErr = e, GetInfo = i, GetReason = r\<rparr>"

definition PhaseInfoUndefined :: PhaseInfo where
  "PhaseInfoUndefined = \<lparr>GetPhase = EPhaseUndefined, GetErr = None, GetInfo = None, GetReason = ''''\<rparr>"

definition PhaseInfoRunning :: "ExecutionInfo option \<Rightarrow> PhaseInfo" where
  "PhaseInfoRunning i = phaseInfo EPhaseRunning i None ''running''"

definition PhaseInfoSuccess :: "ExecutionInfo option \<Rightarrow> PhaseInfo" where
  "PhaseInfoSuccess i = phaseInfo EPhaseSuccess i None ''successfully completed''"

definition PhaseInfoFailureErr :: "ExecutionError option \<Rightarrow> ExecutionInfo option \<Rightarrow> PhaseInfo" where
  "PhaseInfoFailureErr e i = phaseInfo EPhaseFailed i e ''''"

definition PhaseInfoFailingErr :: "ExecutionError option \<Rightarrow> ExecutionInfo option \<Rightarrow> PhaseInfo" where
  "PhaseInfoFailingErr e i = phaseInfo EPhaseFailing i e ''''"

definition PhaseInfoFailure :: "ExecutionError_Kind \<Rightarrow> string \<Rightarrow> string \<Rightarrow> ExecutionInfo option \<Rightarrow> PhaseInfo" where
  "PhaseInfoFailure k c r i = PhaseInfoFailureErr (Some \<lparr>Code = c, Message = r, Kind = k\<rparr>) i"

definition DoTransition :: "TransitionType \<Rightarrow> PhaseInfo \<Rightarrow> Transition" where
  "DoTransition ty i = \<lparr>ttype = ty, tinfo = i\<rparr>"

definition UnknownTransition :: Transition where
  "UnknownTransition = \<lparr>ttype = TransitionTypeEphemeral, tinfo = PhaseInfoUndefined\<rparr>"

datatype WorkflowNodePhase =
    WorkflowNodePhaseUndefined
  | WorkflowNodePhaseExecuting
  | WorkflowNodePhaseSucceeding
  | WorkflowNodePhaseFailing

record WorkflowNodeState =
  Phase :: WorkflowNodePhase
  Error :: "ExecutionError option"

subsection \<open>Package v1alpha1: sub-workflows and node statuses\<close>

text \<open>
  The sub-workflow as this package reads it: \<^verbatim>\<open>StartNode()\<close>,
  \<^verbatim>\<open>GetOnFailureNode()\<close> (nil when no failure node is configured),
  \<^verbatim>\<open>GetOutputBindings()\<close> and \<^verbatim>\<open>GetNodes()\<close>.
\<close>

record SubWorkflow =
  StartNode :: NodeID
  GetOnFailureNode :: "NodeID option"
  GetOutputBindings :: "Binding list"
  GetNodes :: "NodeID list"

text \<open>
  Modelled from the spec: the status type of package \<^verbatim>\<open>v1alpha1\<close> is not among the
  sources. The spec (3) describes it as a mutable record per node with an output directory,
  the unique-ID linkage and the child-node status entries, created lazily. The fields are
  the ones the source reads and writes; a child entry carries the same fields without
  children of its own.
\<close>

record NodeStatusFields =
  UniqueNodeID :: "string option"
  UniqueParentNodeID :: "string option"
  ParentAttempts :: "32 word"
  OutputDir :: DataReference

record ExecutableNodeStatus = NodeStatusFields +
  SubNodeStatus :: "NodeID \<rightharpoonup> NodeStatusFields"

definition emptyNodeStatus :: NodeStatusFields where
  "emptyNodeStatus =
     \<lparr>UniqueNodeID = None, UniqueParentNodeID = None, ParentAttempts = 0, OutputDir = ''''\<rparr>"

text \<open>\<^verbatim>\<open>executors.NewNodeLookup(subWorkflow, status)\<close>: the two values it binds.\<close>

record NodeLookup =
  nl_nodes :: SubWorkflow
  nl_status :: ExecutableNodeStatus

definition NewNodeLookup :: "SubWorkflow \<Rightarrow> ExecutableNodeStatus \<Rightarrow> NodeLookup" where
  "NewNodeLookup n st = \<lparr>nl_nodes = n, nl_status = st\<rparr>"

text \<open>
  The declarations of the packages \<^verbatim>\<open>v1alpha1\<close>, \<^verbatim>\<open>errors\<close> and
  \<^verbatim>\<open>executors\<close> that the source uses and that are not among the sources, taken
  as parameters: the constant \<^verbatim>\<open>EndNodeID\<close>, the two error codes, the functions
  \<^verbatim>\<open>GetOutputsFile\<close> and \<^verbatim>\<open>ComputeUniqueIDForNode\<close>, the answer of
  \<^verbatim>\<open>GetNodeExecutionStatus\<close> of a node lookup, and whether resolving a child status
  of the enclosing node's status fails.
\<close>

record decls =
  EndNodeID :: NodeID
  RuntimeExecutionError :: string
  SubWorkflowExecutionFailed :: string
  GetOutputsFile :: "DataReference \<Rightarrow> DataReference"
  ComputeUniqueIDForNode :: "NodeID \<Rightarrow> string \<Rightarrow> string \<Rightarrow> error + string"
  NodeLookup_GetNodeExecutionStatus :: "NodeLookup \<Rightarrow> NodeID \<Rightarrow> error + NodeStatusFields option"
  StatusLookupError :: "NodeID \<Rightarrow> error option"

text \<open>
  Modelled from the spec: \<^verbatim>\<open>GetNodeExecutionStatus\<close> and the setters of the enclosing
  node's status are not among the sources. By the spec (3, 4.1) resolving a child status
  fails with a lookup error or yields the child's entry, which is created lazily; the
  setters write one field of that entry in place.
\<close>

definition GetNodeExecutionStatus ::
  "decls \<Rightarrow> ExecutableNodeStatus \<Rightarrow> NodeID \<Rightarrow> ExecutableNodeStatus \<times> (error + NodeStatusFields)" where
  "GetNodeExecutionStatus d status n =
     (case StatusLookupError d n of
        Some e \<Rightarrow> (status, Inl e)
      | None \<Rightarrow>
          (case SubNodeStatus status n of
             Some c \<Rightarrow> (status, Inr c)
           | None \<Rightarrow> (status\<lparr>SubNodeStatus := (SubNodeStatus status)(n \<mapsto> emptyNodeStatus)\<rparr>,
                      Inr emptyNodeStatus)))"

definition childStatus :: "ExecutableNodeStatus \<Rightarrow> NodeID \<Rightarrow> NodeStatusFields" where
  "childStatus status n = (case SubNodeStatus status n of Some c \<Rightarrow> c | None \<Rightarrow> emptyNodeStatus)"

definition SetUniqueParentNodeID ::
  "NodeID \<Rightarrow> string option \<Rightarrow> ExecutableNodeStatus \<Rightarrow> ExecutableNodeStatus" where
  "SetUniqueParentNodeID n v status =
     status\<lparr>SubNodeStatus := (SubNodeStatus status)(n \<mapsto> (childStatus status n)\<lparr>UniqueParentNodeID := v\<rparr>)\<rparr>"

definition SetUniqueNodeID ::
  "NodeID \<Rightarrow> string option \<Rightarrow> ExecutableNodeStatus \<Rightarrow> ExecutableNodeStatus" where
  "SetUniqueNodeID n v status =
     status\<lparr>SubNodeStatus := (SubNodeStatus status)(n \<mapsto> (childStatus status n)\<lparr>UniqueNodeID := v\<rparr>)\<rparr>"

definition SetParentAttempts ::
  "NodeID \<Rightarrow> 32 word \<Rightarrow> ExecutableNodeStatus \<Rightarrow> ExecutableNodeStatus" where
  "SetParentAttempts n v status =
     status\<lparr>SubNodeStatus := (SubNodeStatus status)(n \<mapsto> (childStatus status n)\<lparr>ParentAttempts := v\<rparr>)\<rparr>"

subsection \<open>The standard library: strconv.Itoa\<close>

definition digit_char :: "nat \<Rightarrow> char" where
  "digit_char k = char_of (48 + k)"

fun Itoa_nat :: "nat \<Rightarrow> string" where
  "Itoa_nat k = (if k < 10 then [digit_char k] else Itoa_nat (k div 10) @ [digit_char (k mod 10)])"

definition Itoa :: "int \<Rightarrow> string" where
  "Itoa i = (if i < 0 then CHR ''-'' # Itoa_nat (nat (- i)) else Itoa_nat (nat i))"

subsection \<open>The collaborators of one reconciliation tick\<close>

text \<open>The executor \<^verbatim>\<open>executors.Node\<close> held by the handler: what its three methods answer.\<close>

record Node =
  RecursiveNodeHandler :: "SubWorkflow \<Rightarrow> NodeLookup \<Rightarrow> NodeID \<Rightarrow> error + NodeStatus"
  SetInputsForStartNode :: "SubWorkflow \<Rightarrow> NodeLookup \<Rightarrow> LiteralMap option \<Rightarrow> error + NodeStatus"
  AbortHandler :: "SubWorkflow \<Rightarrow> NodeLookup \<Rightarrow> NodeID \<Rightarrow> string \<Rightarrow> error option"

record subworkflowHandler =
  nodeExecutor :: Node

record Metadata =
  Exists :: bool

text \<open>
  \<^verbatim>\<open>handler.NodeExecutionContext\<close>: the reference of the enclosing node to its
  sub-workflow (a pointer, nil is \<open>None\<close>), the sub-workflows of the execution context, the
  attempt, the persisted workflow node state, and the answers of the input reader, the
  state writer, the data store and the re-enqueue callback. The enclosing node's status is
  mutable and lives in the \<open>world\<close>.
\<close>

record NodeExecutionContext =
  GetSubWorkflowRef :: "WorkflowID option"
  FindSubWorkflow :: "WorkflowID \<Rightarrow> SubWorkflow option"
  CurrentAttempt :: "32 word"
  GetWorkflowNodeState :: WorkflowNodeState
  InputReader_Get :: "error + LiteralMap option"
  PutWorkflowNodeState :: "WorkflowNodeState \<Rightarrow> error option"
  Head :: "DataReference \<Rightarrow> error + Metadata"
  CopyRaw :: "DataReference \<Rightarrow> DataReference \<Rightarrow> error option"
  EnqueueOwnerFunc :: "error option"

datatype event =
    CallInputReaderGet
  | CallSetInputsForStartNode "LiteralMap option"
  | CallRecursiveNodeHandler NodeID
  | CallAbortHandler NodeID string
  | CallPutWorkflowNodeState WorkflowNodeState
  | CallNodeLookupStatus NodeID
  | CallHead DataReference
  | CallCopyRaw DataReference DataReference
  | CallEnqueueOwner

record world =
  trace :: "event list"
  NodeStatus_of :: ExecutableNodeStatus

definition call :: "event \<Rightarrow> world \<Rightarrow> world" where
  "call e w = w\<lparr>trace := trace w @ [e]\<rparr>"

subsection \<open>The functions of subworkflow.go\<close>

text \<open>\<^verbatim>\<open>GetSubWorkflow\<close>: dereferences the sub-workflow reference of the node and looks
  the sub-workflow up in the execution context.\<close>

definition GetSubWorkflow :: "NodeExecutionContext \<Rightarrow> (error + SubWorkflow) outcome" where
  "GetSubWorkflow nCtx =
     (case GetSubWorkflowRef nCtx of
        None \<Rightarrow> Panic
      | Some subID \<Rightarrow>
          (case FindSubWorkflow nCtx subID of
             None \<Rightarrow> Return (Inl (GoError (''failed to find sub workflow with ID ['' @ subID @ '']'')))
           | Some subWorkflow \<Rightarrow> Return (Inr subWorkflow)))"

text \<open>\<^verbatim>\<open>handleSubWorkflow\<close>: calls the recursive executor from the start node and
  translates its aggregate result.\<close>

definition handleSubWorkflow ::
  "decls \<Rightarrow> subworkflowHandler \<Rightarrow> NodeExecutionContext \<Rightarrow> SubWorkflow \<Rightarrow> NodeLookup \<Rightarrow> world
     \<Rightarrow> world \<times> Transition \<times> error option" where
  "handleSubWorkflow d s nCtx subworkflow nl w =
     (let w1 = call (CallRecursiveNodeHandler (StartNode subworkflow)) w in
      case RecursiveNodeHandler (nodeExecutor s) subworkflow nl (StartNode subworkflow) of
        Inl e \<Rightarrow> (w1, DoTransition TransitionTypeEphemeral PhaseInfoUndefined, Some e)
      | Inr state \<Rightarrow>
          if HasFailed state then
            (let workflowNodeState = \<lparr>Phase = WorkflowNodePhaseFailing, Error = Err state\<rparr>;
                 w2 = call (CallPutWorkflowNodeState workflowNodeState) w1;
                 err = PutWorkflowNodeState nCtx workflowNodeState
             in if GetOnFailureNode subworkflow \<noteq> None
                then (w2, DoTransition TransitionTypeEphemeral (PhaseInfoFailingErr (Err state) None), err)
                else (w2, DoTransition TransitionTypeEphemeral (PhaseInfoFailureErr (Err state) None), err))
          else if IsComplete state then
            (if length (GetOutputBindings subworkflow) > 0 then
               (let w2 = call (CallNodeLookupStatus (EndNodeID d)) w1 in
                case NodeLookup_GetNodeExecutionStatus d nl (EndNodeID d) of
                  Inl e \<Rightarrow> (w2, UnknownTransition, Some e)
                | Inr None \<Rightarrow>
                    (w2, DoTransition TransitionTypeEphemeral
                           (PhaseInfoFailure ExecutionError_SYSTEM (SubWorkflowExecutionFailed d)
                              ''No end node found in subworkflow.'' None), None)
                | Inr (Some endNodeStatus) \<Rightarrow>
                    (let sourcePath = GetOutputsFile d (OutputDir endNodeStatus);
                         w3 = call (CallHead sourcePath) w2 in
                     case Head nCtx sourcePath of
                       Inr metadata \<Rightarrow>
                         if \<not> Exists metadata then
                           (let errMsg = ''Subworkflow is expected to produce outputs but no outputs file was written to ''
                                           @ sourcePath @ ''.''
                            in (w3, DoTransition TransitionTypeEphemeral
                                      (PhaseInfoFailure ExecutionError_SYSTEM (SubWorkflowExecutionFailed d)
                                         errMsg None), None))
                         else
                           (let destinationPath = GetOutputsFile d (OutputDir (NodeStatus_of w3));
                                w4 = call (CallCopyRaw sourcePath destinationPath) w3 in
                            case CopyRaw nCtx sourcePath destinationPath of
                              Some e \<Rightarrow>
                                (let errMsg = ''Failed to copy subworkflow outputs from ['' @ sourcePath
                                                @ ''] to ['' @ destinationPath @ '']''
                                 in (w4, DoTransition TransitionTypeEphemeral
                                           (PhaseInfoFailure ExecutionError_SYSTEM
                                              (SubWorkflowExecutionFailed d) errMsg None), None))
                            | None \<Rightarrow>
                                (w4, DoTransition TransitionTypeEphemeral
                                       (PhaseInfoSuccess
                                          (Some \<lparr>OutputInfo = Some \<lparr>OutputURI = destinationPath\<rparr>\<rparr>)), None))
                     | Inl e \<Rightarrow> (w3, DoTransition TransitionTypeEphemeral PhaseInfoUndefined, None)))
             else (w1, DoTransition TransitionTypeEphemeral
                         (PhaseInfoSuccess (Some \<lparr>OutputInfo = None\<rparr>)), None))
          else if PartiallyComplete state then
            (let w2 = call CallEnqueueOwner w1 in
             case EnqueueOwnerFunc nCtx of
               Some e \<Rightarrow> (w2, UnknownTransition, Some e)
             | None \<Rightarrow> (w2, DoTransition TransitionTypeEphemeral (PhaseInfoRunning None), None))
          else (w1, DoTransition TransitionTypeEphemeral (PhaseInfoRunning None), None))"

text \<open>\<^verbatim>\<open>startAndHandleSubWorkflow\<close>: reads the inputs of the node, sets them on the start
  node, then handles the sub-workflow.\<close>

definition startAndHandleSubWorkflow ::
  "decls \<Rightarrow> subworkflowHandler \<Rightarrow> NodeExecutionContext \<Rightarrow> SubWorkflow \<Rightarrow> NodeLookup \<Rightarrow> world
     \<Rightarrow> world \<times> Transition \<times> error option" where
  "startAndHandleSubWorkflow d s nCtx subWorkflow nl w =
     (let w1 = call CallInputReaderGet w in
      case InputReader_Get nCtx of
        Inl e \<Rightarrow>
          (let errMsg = ''Failed to read input. Error ['' @ error_Error e @ '']''
           in (w1, DoTransition TransitionTypeEphemeral
                     (PhaseInfoFailure ExecutionError_SYSTEM (RuntimeExecutionError d) errMsg None), None))
      | Inr nodeInputs \<Rightarrow>
          (let w2 = call (CallSetInputsForStartNode nodeInputs) w1 in
           case SetInputsForStartNode (nodeExecutor s) subWorkflow nl nodeInputs of
             Inl e \<Rightarrow> (w2, DoTransition TransitionTypeEphemeral PhaseInfoUndefined, Some e)
           | Inr startStatus \<Rightarrow>
               if HasFailed startStatus
               then (w2, DoTransition TransitionTypeEphemeral (PhaseInfoFailureErr (Err startStatus) None), None)
               else handleSubWorkflow d s nCtx subWorkflow nl w2))"

text \<open>\<^verbatim>\<open>HandleFailureNodeOfSubWorkflow\<close>: runs the failure node and reports the failure.\<close>

definition HandleFailureNodeOfSubWorkflow ::
  "decls \<Rightarrow> subworkflowHandler \<Rightarrow> NodeExecutionContext \<Rightarrow> SubWorkflow \<Rightarrow> NodeLookup \<Rightarrow> world
     \<Rightarrow> world \<times> Transition \<times> error option" where
  "HandleFailureNodeOfSubWorkflow d s nCtx subworkflow nl w =
     (let originalError = Error (GetWorkflowNodeState nCtx) in
      case GetOnFailureNode subworkflow of
        Some failureNode \<Rightarrow>
          (let w1 = call (CallRecursiveNodeHandler failureNode) w in
           case RecursiveNodeHandler (nodeExecutor s) subworkflow nl failureNode of
             Inl e \<Rightarrow> (w1, DoTransition TransitionTypeEphemeral PhaseInfoUndefined, Some e)
           | Inr state \<Rightarrow>
               if NodePhase state = NodePhaseRunning then
                 (w1, DoTransition TransitionTypeEphemeral (PhaseInfoRunning None), None)
               else if HasFailed state then
                 (w1, DoTransition TransitionTypeEphemeral (PhaseInfoFailureErr (Err state) None), None)
               else if PartiallyComplete state then
                 (let w2 = call CallEnqueueOwner w1 in
                  case EnqueueOwnerFunc nCtx of
                    Some e \<Rightarrow> (w2, UnknownTransition, Some e)
                  | None \<Rightarrow>
                      (w2, DoTransition TransitionTypeEphemeral (PhaseInfoFailingErr originalError None), None))
               else if IsComplete state then
                 (w1, DoTransition TransitionTypeEphemeral (PhaseInfoFailureErr originalError None), None)
               else (w1, DoTransition TransitionTypeEphemeral (PhaseInfoFailureErr originalError None), None))
      | None \<Rightarrow> (w, DoTransition TransitionTypeEphemeral (PhaseInfoFailureErr originalError None), None))"

text \<open>\<^verbatim>\<open>HandleFailingSubWorkflow\<close>: the entry point of a node that is already failing.\<close>

definition HandleFailingSubWorkflow ::
  "decls \<Rightarrow> subworkflowHandler \<Rightarrow> NodeExecutionContext \<Rightarrow> world
     \<Rightarrow> (world \<times> Transition \<times> error option) outcome" where
  "HandleFailingSubWorkflow d s nCtx w =
     (case GetSubWorkflow nCtx of
        Panic \<Rightarrow> Panic
      | Return (Inl e) \<Rightarrow>
          Return (w, DoTransition TransitionTypeEphemeral
                       (PhaseInfoFailure ExecutionError_SYSTEM (SubWorkflowExecutionFailed d)
                          (error_Error e) None), None)
      | Return (Inr subWorkflow) \<Rightarrow>
          (let status = NodeStatus_of w in
           if GetOnFailureNode subWorkflow = None
           then Return (w, DoTransition TransitionTypeEphemeral
                             (PhaseInfoFailureErr (Error (GetWorkflowNodeState nCtx)) None), None)
           else (let nodeLookup = NewNodeLookup subWorkflow status
                 in Return (HandleFailureNodeOfSubWorkflow d s nCtx subWorkflow nodeLookup w))))"

text \<open>
  The loop of \<^verbatim>\<open>fetchNodeLookupForSubWorkflow\<close> over the nodes of the sub-workflow.
  \<open>uniqueparentID\<close> is the pointer read before the loop; it is dereferenced in every
  round, after the child status has been resolved.
\<close>

fun fetchNodeLookup_range ::
  "decls \<Rightarrow> NodeExecutionContext \<Rightarrow> string option \<Rightarrow> string \<Rightarrow> NodeID list \<Rightarrow> ExecutableNodeStatus
     \<Rightarrow> (ExecutableNodeStatus \<times> error option) outcome" where
  "fetchNodeLookup_range d nCtx uniqueparentID currentAttemptStr [] status = Return (status, None)"
| "fetchNodeLookup_range d nCtx uniqueparentID currentAttemptStr (n # ns) status =
     (case GetNodeExecutionStatus d status n of
        (status1, Inl e) \<Rightarrow> Return (status1, Some e)
      | (status1, Inr subWorkflowNodeStatus) \<Rightarrow>
          (case uniqueparentID of
             None \<Rightarrow> Panic
           | Some parentID \<Rightarrow>
               (case ComputeUniqueIDForNode d n parentID currentAttemptStr of
                  Inl e \<Rightarrow> Return (status1, Some e)
                | Inr newID \<Rightarrow>
                    fetchNodeLookup_range d nCtx uniqueparentID currentAttemptStr ns
                      (SetParentAttempts n (CurrentAttempt nCtx)
                         (SetUniqueNodeID n (Some newID)
                            (SetUniqueParentNodeID n (UniqueNodeID status1) status1))))))"

definition fetchNodeLookupForSubWorkflow ::
  "decls \<Rightarrow> NodeExecutionContext \<Rightarrow> SubWorkflow \<Rightarrow> world \<Rightarrow> (world \<times> (error + NodeLookup)) outcome" where
  "fetchNodeLookupForSubWorkflow d nCtx subWorkflow w =
     (let status = NodeStatus_of w;
          uniqueparentID = UniqueNodeID status;
          currentAttemptStr = Itoa (uint (CurrentAttempt nCtx))
      in case fetchNodeLookup_range d nCtx uniqueparentID currentAttemptStr (GetNodes subWorkflow) status of
           Panic \<Rightarrow> Panic
         | Return (status1, Some e) \<Rightarrow> Return (w\<lparr>NodeStatus_of := status1\<rparr>, Inl e)
         | Return (status1, None) \<Rightarrow>
             Return (w\<lparr>NodeStatus_of := status1\<rparr>, Inr (NewNodeLookup subWorkflow status1)))"

definition StartSubWorkflow ::
  "decls \<Rightarrow> subworkflowHandler \<Rightarrow> NodeExecutionContext \<Rightarrow> world
     \<Rightarrow> (world \<times> Transition \<times> error option) outcome" where
  "StartSubWorkflow d s nCtx w =
     (case GetSubWorkflow nCtx of
        Panic \<Rightarrow> Panic
      | Return (Inl e) \<Rightarrow>
          Return (w, DoTransition TransitionTypeEphemeral
                       (PhaseInfoFailure ExecutionError_SYSTEM (SubWorkflowExecutionFailed d)
                          (error_Error e) None), None)
      | Return (Inr subWorkflow) \<Rightarrow>
          (case fetchNodeLookupForSubWorkflow d nCtx subWorkflow w of
             Panic \<Rightarrow> Panic
           | Return (w1, Inl e) \<Rightarrow> Return (w1, UnknownTransition, Some e)
           | Return (w1, Inr nodeLookup) \<Rightarrow>
               Return (startAndHandleSubWorkflow d s nCtx subWorkflow nodeLookup w1)))"

definition CheckSubWorkflowStatus ::
  "decls \<Rightarrow> subworkflowHandler \<Rightarrow> NodeExecutionContext \<Rightarrow> world
     \<Rightarrow> (world \<times> Transition \<times> error option) outcome" where
  "CheckSubWorkflowStatus d s nCtx w =
     (case GetSubWorkflow nCtx of
        Panic \<Rightarrow> Panic
      | Return (Inl e) \<Rightarrow>
          Return (w, DoTransition TransitionTypeEphemeral
                       (PhaseInfoFailure ExecutionError_SYSTEM (SubWorkflowExecutionFailed d)
                          (error_Error e) None), None)
      | Return (Inr subWorkflow) \<Rightarrow>
          (case fetchNodeLookupForSubWorkflow d nCtx subWorkflow w of
             Panic \<Rightarrow> Panic
           | Return (w1, Inl e) \<Rightarrow> Return (w1, UnknownTransition, Some e)
           | Return (w1, Inr nodeLookup) \<Rightarrow>
               Return (startAndHandleSubWorkflow d s nCtx subWorkflow nodeLookup w1)))"

definition HandleAbort ::
  "subworkflowHandler \<Rightarrow> NodeExecutionContext \<Rightarrow> string \<Rightarrow> world \<Rightarrow> (world \<times> error option) outcome" where
  "HandleAbort s nCtx reason w =
     (case GetSubWorkflow nCtx of
        Panic \<Rightarrow> Panic
      | Return (Inl e) \<Rightarrow> Return (w, Some e)
      | Return (Inr subWorkflow) \<Rightarrow>
          (let status = NodeStatus_of w;
               nodeLookup = NewNodeLookup subWorkflow status;
               w1 = call (CallAbortHandler (StartNode subWorkflow) reason) w
           in Return (w1, AbortHandler (nodeExecutor s) subWorkflow nodeLookup (StartNode subWorkflow) reason)))"

definition newSubworkflowHandler :: "Node \<Rightarrow> subworkflowHandler" where
  "newSubworkflowHandler ex = \<lparr>nodeExecutor = ex\<rparr>"

text \<open>The calls made between two worlds: what a function appended to the trace.\<close>

definition new_calls :: "world \<Rightarrow> world \<Rightarrow> event list" where
  "new_calls w w' = drop (length (trace w)) (trace w')"

subsection \<open>The writes of one round of the node lookup loop\<close>

text \<open>
  Two abbreviations for the proofs about \<^verbatim>\<open>fetchNodeLookupForSubWorkflow\<close>:
  \<open>touch\<close> is what resolving a child status leaves behind (the entry exists afterwards),
  \<open>stamp\<close> is the three setters of one round together.
\<close>

definition touch :: "NodeID \<Rightarrow> ExecutableNodeStatus \<Rightarrow> ExecutableNodeStatus" where
  "touch n status = status\<lparr>SubNodeStatus := (SubNodeStatus status)(n \<mapsto> childStatus status n)\<rparr>"

definition stamp :: "NodeID \<Rightarrow> string \<Rightarrow> 32 word \<Rightarrow> ExecutableNodeStatus \<Rightarrow> ExecutableNodeStatus" where
  "stamp n newID a status =
     status\<lparr>SubNodeStatus := (SubNodeStatus status)(n \<mapsto>
        (childStatus status n)\<lparr>UniqueParentNodeID := UniqueNodeID status, UniqueNodeID := Some newID,
                                ParentAttempts := a\<rparr>)\<rparr>"

subsection \<open>A concrete tick\<close>

text \<open>
  One enclosing node \<open>n0\<close> at attempt 0 with the sub-workflow
  \<open>start-node \<rightarrow> A \<rightarrow> end-node\<close>, used to run the theorems below on concrete values. The
  failure node, the output bindings and the answers of the collaborators are arguments.
  \<open>ex_E1\<close> is the failure of node \<open>A\<close>, \<open>ex_E2\<close> a failure of the failure node \<open>F\<close>;
  \<open>ex_status1\<close> is the status after the node lookup has been built once.
\<close>

definition ex_E1 :: ExecutionError where
  "ex_E1 = \<lparr>Code = ''USER:DivisionByZero'', Message = ''node A failed'', Kind = ExecutionError_USER\<rparr>"

definition ex_E2 :: ExecutionError where
  "ex_E2 = \<lparr>Code = ''USER:CleanupFailed'', Message = ''failure node F failed'', Kind = ExecutionError_USER\<rparr>"

definition ex_decls :: decls where
  "ex_decls =
     \<lparr>EndNodeID = ''end-node'',
      RuntimeExecutionError = ''RuntimeExecutionError'',
      SubWorkflowExecutionFailed = ''SubWorkflowExecutionFailed'',
      GetOutputsFile = (\<lambda>dir. dir @ ''/outputs.pb''),
      ComputeUniqueIDForNode = (\<lambda>n parent attempt. Inr (parent @ ''-'' @ attempt @ ''-'' @ n)),
      NodeLookup_GetNodeExecutionStatus = (\<lambda>nl n. Inr (SubNodeStatus (nl_status nl) n)),
      StatusLookupError = (\<lambda>n. None)\<rparr>"

definition ex_status :: ExecutableNodeStatus where
  "ex_status =
     \<lparr>UniqueNodeID = Some ''n0'', UniqueParentNodeID = None, ParentAttempts = 0,
      OutputDir = ''s3://bucket/n0'',
      SubNodeStatus = [''end-node'' \<mapsto> emptyNodeStatus\<lparr>OutputDir := ''s3://bucket/n0/end''\<rparr>]\<rparr>"

definition ex_status1 :: ExecutableNodeStatus where
  "ex_status1 =
     stamp ''end-node'' ''n0-0-end-node'' 0
       (stamp ''A'' ''n0-0-A'' 0
          (stamp ''start-node'' ''n0-0-start-node'' 0 ex_status))"

definition ex_world :: world where
  "ex_world = \<lparr>trace = [], NodeStatus_of = ex_status\<rparr>"

definition ex_wf :: "NodeID option \<Rightarrow> Binding list \<Rightarrow> SubWorkflow" where
  "ex_wf f b = \<lparr>StartNode = ''start-node'', GetOnFailureNode = f, GetOutputBindings = b,
               GetNodes = [''start-node'', ''A'', ''end-node'']\<rparr>"

definition ex_handler :: "error + NodeStatus \<Rightarrow> error option \<Rightarrow> subworkflowHandler" where
  "ex_handler r a =
     \<lparr>nodeExecutor =
        \<lparr>RecursiveNodeHandler = (\<lambda>sw nl n. r),
         SetInputsForStartNode = (\<lambda>sw nl i. Inr \<lparr>NodePhase = NodePhaseComplete, Err = None\<rparr>),
         AbortHandler = (\<lambda>sw nl n reason. a)\<rparr>\<rparr>"

definition ex_nCtx ::
  "SubWorkflow option \<Rightarrow> error option \<Rightarrow> error + Metadata \<Rightarrow> error option \<Rightarrow> NodeExecutionContext" where
  "ex_nCtx sw put hdr enq =
     \<lparr>GetSubWorkflowRef = Some ''sub'',
      FindSubWorkflow = (\<lambda>i. if i = ''sub'' then sw else None),
      CurrentAttempt = 0,
      GetWorkflowNodeState = \<lparr>Phase = WorkflowNodePhaseFailing, Error = Some ex_E1\<rparr>,
      InputReader_Get = Inr (Some [(''x'', ''5'')]),
      PutWorkflowNodeState = (\<lambda>st. put),
      Head = (\<lambda>path. hdr),
      CopyRaw = (\<lambda>src dst. None),
      EnqueueOwnerFunc = enq\<rparr>"

declare fetchNodeLookup_range.simps(2) [simp del]

section \<open>Properties of the handler\<close>

lemmas phase_defs = DoTransition_def UnknownTransition_def PhaseInfoUndefined_def PhaseInfoRunning_def
  PhaseInfoSuccess_def PhaseInfoFailureErr_def PhaseInfoFailingErr_def PhaseInfoFailure_def phaseInfo_def

lemmas test_defs = HasFailed_def IsComplete_def PartiallyComplete_def

subsection \<open>The failure node\<close>

text \<open>
  Claim C1 says that a PartiallyComplete failure node always gives Failing with the original
  error. It does not: when the re-enqueue callback returns an error,
  \<^verbatim>\<open>HandleFailureNodeOfSubWorkflow\<close> returns the unknown transition with that error.
  Here the failure node \<open>F\<close> is partially complete, the persisted error is \<open>ex_E1\<close> and
  the callback fails.
\<close>

theorem HandleFailureNodeOfSubWorkflow_enqueue_error_counterexample:
  "GetOnFailureNode (ex_wf (Some ''F'') []) = Some ''F'' \<and>
   RecursiveNodeHandler (nodeExecutor (ex_handler (Inr \<lparr>NodePhase = NodePhaseSuccess, Err = None\<rparr>) None))
     (ex_wf (Some ''F'') []) (NewNodeLookup (ex_wf (Some ''F'') []) ex_status) ''F''
     = Inr \<lparr>NodePhase = NodePhaseSuccess, Err = None\<rparr> \<and>
   PartiallyComplete \<lparr>NodePhase = NodePhaseSuccess, Err = None\<rparr> \<and>
   Error (GetWorkflowNodeState
     (ex_nCtx None None (Inr \<lparr>Exists = True\<rparr>) (Some (GoError ''queue is shut down'')))) = Some ex_E1 \<and>
   snd (HandleFailureNodeOfSubWorkflow ex_decls
          (ex_handler (Inr \<lparr>NodePhase = NodePhaseSuccess, Err = None\<rparr>) None)
          (ex_nCtx None None (Inr \<lparr>Exists = True\<rparr>) (Some (GoError ''queue is shut down'')))
          (ex_wf (Some ''F'') []) (NewNodeLookup (ex_wf (Some ''F'') []) ex_status) ex_world)
     = (UnknownTransition, Some (GoError ''queue is shut down'')) \<and>
   GetPhase (tinfo UnknownTransition) \<noteq> EPhaseFailing \<and>
   GetErr (tinfo UnknownTransition) \<noteq> Some ex_E1"
  by (simp add: HandleFailureNodeOfSubWorkflow_def ex_wf_def ex_handler_def ex_nCtx_def test_defs
      UnknownTransition_def PhaseInfoUndefined_def Let_def)

text \<open>
  Claim C1, amended. A failure node is configured, the recursive executor returns the state
  of the failure node without an error, and the persisted original error is \<open>E1\<close>. If the
  state is Complete, the transition is Failed with \<open>E1\<close>. If the state is PartiallyComplete
  and the re-enqueue callback returns no error, the transition is Failing with \<open>E1\<close>. If the
  state is Failed with error \<open>E2\<close>, the transition is Failed with \<open>E2\<close>. No error is
  returned beside the transition in the three cases.
\<close>

theorem HandleFailureNodeOfSubWorkflow_reported_error:
  assumes "GetOnFailureNode subworkflow = Some failureNode"
    and "RecursiveNodeHandler (nodeExecutor s) subworkflow nl failureNode = Inr state"
    and "Error (GetWorkflowNodeState nCtx) = E1"
  shows "(IsComplete state \<longrightarrow>
            (case HandleFailureNodeOfSubWorkflow d s nCtx subworkflow nl w of
               (w', t, e) \<Rightarrow>
                 t = DoTransition TransitionTypeEphemeral (PhaseInfoFailureErr E1 None) \<and>
                 GetPhase (tinfo t) = EPhaseFailed \<and> GetErr (tinfo t) = E1 \<and> e = None)) \<and>
         (PartiallyComplete state \<and> EnqueueOwnerFunc nCtx = None \<longrightarrow>
            (case HandleFailureNodeOfSubWorkflow d s nCtx subworkflow nl w of
               (w', t, e) \<Rightarrow>
                 t = DoTransition TransitionTypeEphemeral (PhaseInfoFailingErr E1 None) \<and>
                 GetPhase (tinfo t) = EPhaseFailing \<and> GetErr (tinfo t) = E1 \<and> e = None)) \<and>
         (HasFailed state \<and> Err state = E2 \<longrightarrow>
            (case HandleFailureNodeOfSubWorkflow d s nCtx subworkflow nl w of
               (w', t, e) \<Rightarrow>
                 t = DoTransition TransitionTypeEphemeral (PhaseInfoFailureErr E2 None) \<and>
                 GetPhase (tinfo t) = EPhaseFailed \<and> GetErr (tinfo t) = E2 \<and> e = None))"
  using assms
  by (simp add: HandleFailureNodeOfSubWorkflow_def Let_def test_defs phase_defs)

theorem HandleFailureNodeOfSubWorkflow_reported_error_witness:
  "(case HandleFailureNodeOfSubWorkflow ex_decls
           (ex_handler (Inr \<lparr>NodePhase = NodePhaseComplete, Err = None\<rparr>) None)
           (ex_nCtx None None (Inr \<lparr>Exists = True\<rparr>) None)
           (ex_wf (Some ''F'') []) (NewNodeLookup (ex_wf (Some ''F'') []) ex_status) ex_world of
      (w', t, e) \<Rightarrow> GetPhase (tinfo t) = EPhaseFailed \<and> GetErr (tinfo t) = Some ex_E1 \<and> e = None) \<and>
   (case HandleFailureNodeOfSubWorkflow ex_decls
           (ex_handler (Inr \<lparr>NodePhase = NodePhaseSuccess, Err = None\<rparr>) None)
           (ex_nCtx None None (Inr \<lparr>Exists = True\<rparr>) None)
           (ex_wf (Some ''F'') []) (NewNodeLookup (ex_wf (Some ''F'') []) ex_status) ex_world of
      (w', t, e) \<Rightarrow> GetPhase (tinfo t) = EPhaseFailing \<and> GetErr (tinfo t) = Some ex_E1 \<and> e = None) \<and>
   (case HandleFailureNodeOfSubWorkflow ex_decls
           (ex_handler (Inr \<lparr>NodePhase = NodePhaseFailed, Err = Some ex_E2\<rparr>) None)
           (ex_nCtx None None (Inr \<lparr>Exists = True\<rparr>) None)
           (ex_wf (Some ''F'') []) (NewNodeLookup (ex_wf (Some ''F'') []) ex_status) ex_world of
      (w', t, e) \<Rightarrow> GetPhase (tinfo t) = EPhaseFailed \<and> GetErr (tinfo t) = Some ex_E2 \<and> e = None)"
proof -
  let ?nCtx = "ex_nCtx None None (Inr \<lparr>Exists = True\<rparr>) None"
  let ?sw = "ex_wf (Some ''F'') []"
  have f: "GetOnFailureNode ?sw = Some ''F''"
    by (simp add: ex_wf_def)
  have r: "RecursiveNodeHandler (nodeExecutor (ex_handler (Inr st) None)) ?sw nl ''F'' = Inr st" for st nl
    by (simp add: ex_handler_def)
  have e: "Error (GetWorkflowNodeState ?nCtx) = Some ex_E1"
    by (simp add: ex_nCtx_def)
  have q: "EnqueueOwnerFunc ?nCtx = None"
    by (simp add: ex_nCtx_def)
  show ?thesis
    using HandleFailureNodeOfSubWorkflow_reported_error
            [OF f r e, where state = "\<lparr>NodePhase = NodePhaseComplete, Err = None\<rparr>" and d = ex_decls
              and w = ex_world and nl = "NewNodeLookup ?sw ex_status"]
      HandleFailureNodeOfSubWorkflow_reported_error
            [OF f r e, where state = "\<lparr>NodePhase = NodePhaseSuccess, Err = None\<rparr>" and d = ex_decls
              and w = ex_world and nl = "NewNodeLookup ?sw ex_status"]
      HandleFailureNodeOfSubWorkflow_reported_error
            [OF f r e, where state = "\<lparr>NodePhase = NodePhaseFailed, Err = Some ex_E2\<rparr>" and d = ex_decls
              and w = ex_world and nl = "NewNodeLookup ?sw ex_status" and ?E2.0 = "Some ex_E2"]
      q
    by (simp add: test_defs split: prod.splits)
qed

subsection \<open>The aggregate result Failed\<close>

text \<open>
  Claim C2. When the recursive executor returns a failed state with error \<open>E\<close>,
  \<^verbatim>\<open>handleSubWorkflow\<close> calls the state writer once, with the workflow node state of
  phase Failing and error \<open>E\<close>, and returns the transition Failing with \<open>E\<close> if the
  sub-workflow has a failure node and Failed with \<open>E\<close> if it has none.
\<close>

theorem handleSubWorkflow_failed_persists_state:
  assumes "RecursiveNodeHandler (nodeExecutor s) subworkflow nl (StartNode subworkflow) = Inr state"
    and "HasFailed state"
    and "Err state = E"
  shows "case handleSubWorkflow d s nCtx subworkflow nl w of
           (w', t, e) \<Rightarrow>
             new_calls w w' = [CallRecursiveNodeHandler (StartNode subworkflow),
                               CallPutWorkflowNodeState \<lparr>Phase = WorkflowNodePhaseFailing, Error = E\<rparr>] \<and>
             t = DoTransition TransitionTypeEphemeral
                   (if GetOnFailureNode subworkflow \<noteq> None then PhaseInfoFailingErr E None
                    else PhaseInfoFailureErr E None) \<and>
             GetPhase (tinfo t) = (if GetOnFailureNode subworkflow \<noteq> None then EPhaseFailing else EPhaseFailed) \<and>
             GetErr (tinfo t) = E"
  using assms by (simp add: handleSubWorkflow_def Let_def call_def new_calls_def phase_defs)

theorem handleSubWorkflow_failed_persists_state_witness:
  "(case handleSubWorkflow ex_decls (ex_handler (Inr \<lparr>NodePhase = NodePhaseFailed, Err = Some ex_E1\<rparr>) None)
           (ex_nCtx None None (Inr \<lparr>Exists = True\<rparr>) None) (ex_wf (Some ''F'') [])
           (NewNodeLookup (ex_wf (Some ''F'') []) ex_status) ex_world of
      (w', t, e) \<Rightarrow>
        new_calls ex_world w' =
          [CallRecursiveNodeHandler ''start-node'',
           CallPutWorkflowNodeState \<lparr>Phase = WorkflowNodePhaseFailing, Error = Some ex_E1\<rparr>] \<and>
        GetPhase (tinfo t) = EPhaseFailing \<and> GetErr (tinfo t) = Some ex_E1) \<and>
   (case handleSubWorkflow ex_decls (ex_handler (Inr \<lparr>NodePhase = NodePhaseFailed, Err = Some ex_E1\<rparr>) None)
           (ex_nCtx None None (Inr \<lparr>Exists = True\<rparr>) None) (ex_wf None [])
           (NewNodeLookup (ex_wf None []) ex_status) ex_world of
      (w', t, e) \<Rightarrow>
        new_calls ex_world w' =
          [CallRecursiveNodeHandler ''start-node'',
           CallPutWorkflowNodeState \<lparr>Phase = WorkflowNodePhaseFailing, Error = Some ex_E1\<rparr>] \<and>
        GetPhase (tinfo t) = EPhaseFailed \<and> GetErr (tinfo t) = Some ex_E1)"
proof -
  let ?st = "\<lparr>NodePhase = NodePhaseFailed, Err = Some ex_E1\<rparr>"
  have r: "RecursiveNodeHandler (nodeExecutor (ex_handler (Inr ?st) None)) sw nl (StartNode sw) = Inr ?st"
    for sw nl
    by (simp add: ex_handler_def)
  have h: "HasFailed ?st"
    by (simp add: HasFailed_def)
  have e: "Err ?st = Some ex_E1"
    by simp
  show ?thesis
    using handleSubWorkflow_failed_persists_state
            [OF r h e, where d = ex_decls and nCtx = "ex_nCtx None None (Inr \<lparr>Exists = True\<rparr>) None"
              and subworkflow = "ex_wf (Some ''F'') []" and w = ex_world
              and nl = "NewNodeLookup (ex_wf (Some ''F'') []) ex_status"]
      handleSubWorkflow_failed_persists_state
            [OF r h e, where d = ex_decls and nCtx = "ex_nCtx None None (Inr \<lparr>Exists = True\<rparr>) None"
              and subworkflow = "ex_wf None []" and w = ex_world
              and nl = "NewNodeLookup (ex_wf None []) ex_status"]
    by (simp add: ex_wf_def split: prod.splits)
qed

text \<open>
  Claim C10. When the state writer itself returns an error on the Failed branch,
  \<^verbatim>\<open>handleSubWorkflow\<close> still returns the transition Failing (with a failure node) or
  Failed (without one) that carries the error of the sub-workflow, not the unknown
  transition, and the error of the state writer is returned beside it.
\<close>

theorem handleSubWorkflow_failed_put_error:
  assumes "RecursiveNodeHandler (nodeExecutor s) subworkflow nl (StartNode subworkflow) = Inr state"
    and "HasFailed state"
    and "Err state = E"
    and "PutWorkflowNodeState nCtx \<lparr>Phase = WorkflowNodePhaseFailing, Error = E\<rparr> = Some putErr"
  shows "case handleSubWorkflow d s nCtx subworkflow nl w of
           (w', t, e) \<Rightarrow>
             e = Some putErr \<and>
             t \<noteq> UnknownTransition \<and>
             GetPhase (tinfo t) = (if GetOnFailureNode subworkflow \<noteq> None then EPhaseFailing else EPhaseFailed) \<and>
             GetErr (tinfo t) = E"
  using assms by (auto simp: handleSubWorkflow_def Let_def call_def phase_defs)

theorem handleSubWorkflow_failed_put_error_witness:
  "(case handleSubWorkflow ex_decls (ex_handler (Inr \<lparr>NodePhase = NodePhaseFailed, Err = Some ex_E1\<rparr>) None)
           (ex_nCtx None (Some (GoError ''state store unavailable'')) (Inr \<lparr>Exists = True\<rparr>) None)
           (ex_wf (Some ''F'') []) (NewNodeLookup (ex_wf (Some ''F'') []) ex_status) ex_world of
      (w', t, e) \<Rightarrow>
        e = Some (GoError ''state store unavailable'') \<and>
        GetPhase (tinfo t) = EPhaseFailing \<and> GetErr (tinfo t) = Some ex_E1) \<and>
   (case handleSubWorkflow ex_decls (ex_handler (Inr \<lparr>NodePhase = NodePhaseFailed, Err = Some ex_E1\<rparr>) None)
           (ex_nCtx None (Some (GoError ''state store unavailable'')) (Inr \<lparr>Exists = True\<rparr>) None)
           (ex_wf None []) (NewNodeLookup (ex_wf None []) ex_status) ex_world of
      (w', t, e) \<Rightarrow>
        e = Some (GoError ''state store unavailable'') \<and>
        GetPhase (tinfo t) = EPhaseFailed \<and> GetErr (tinfo t) = Some ex_E1)"
proof -
  let ?st = "\<lparr>NodePhase = NodePhaseFailed, Err = Some ex_E1\<rparr>"
  let ?nCtx = "ex_nCtx None (Some (GoError ''state store unavailable'')) (Inr \<lparr>Exists = True\<rparr>) None"
  have r: "RecursiveNodeHandler (nodeExecutor (ex_handler (Inr ?st) None)) sw nl (StartNode sw) = Inr ?st"
    for sw nl
    by (simp add: ex_handler_def)
  have h: "HasFailed ?st"
    by (simp add: HasFailed_def)
  have e: "Err ?st = Some ex_E1"
    by simp
  have p: "PutWorkflowNodeState ?nCtx \<lparr>Phase = WorkflowNodePhaseFailing, Error = Some ex_E1\<rparr>
             = Some (GoError ''state store unavailable'')"
    by (simp add: ex_nCtx_def)
  show ?thesis
    using handleSubWorkflow_failed_put_error
            [OF r h e p, where d = ex_decls and subworkflow = "ex_wf (Some ''F'') []" and w = ex_world
               and nl = "NewNodeLookup (ex_wf (Some ''F'') []) ex_status"]
      handleSubWorkflow_failed_put_error
            [OF r h e p, where d = ex_decls and subworkflow = "ex_wf None []" and w = ex_world
               and nl = "NewNodeLookup (ex_wf None []) ex_status"]
    by (simp add: ex_wf_def split: prod.splits)
qed

subsection \<open>The aggregate result Complete\<close>

text \<open>
  Claim C3. When the recursive executor returns a complete state and the sub-workflow has
  no output bindings, \<^verbatim>\<open>handleSubWorkflow\<close> calls nothing after the recursive executor
  (no status lookup of the end node, no head, no copy) and returns the transition Succeeded
  whose execution info has no output info.
\<close>

theorem handleSubWorkflow_complete_without_outputs:
  assumes "RecursiveNodeHandler (nodeExecutor s) subworkflow nl (StartNode subworkflow) = Inr state"
    and "IsComplete state"
    and "GetOutputBindings subworkflow = []"
  shows "case handleSubWorkflow d s nCtx subworkflow nl w of
           (w', t, e) \<Rightarrow>
             new_calls w w' = [CallRecursiveNodeHandler (StartNode subworkflow)] \<and>
             (\<forall>n. CallNodeLookupStatus n \<notin> set (new_calls w w')) \<and>
             (\<forall>p. CallHead p \<notin> set (new_calls w w')) \<and>
             (\<forall>src dst. CallCopyRaw src dst \<notin> set (new_calls w w')) \<and>
             t = DoTransition TransitionTypeEphemeral (PhaseInfoSuccess (Some \<lparr>OutputInfo = None\<rparr>)) \<and>
             GetPhase (tinfo t) = EPhaseSuccess \<and>
             GetInfo (tinfo t) = Some \<lparr>OutputInfo = None\<rparr> \<and>
             e = None"
  using assms
  by (simp add: handleSubWorkflow_def Let_def call_def new_calls_def test_defs phase_defs)

theorem handleSubWorkflow_complete_without_outputs_witness:
  "case handleSubWorkflow ex_decls (ex_handler (Inr \<lparr>NodePhase = NodePhaseComplete, Err = None\<rparr>) None)
          (ex_nCtx None None (Inr \<lparr>Exists = True\<rparr>) None) (ex_wf None [])
          (NewNodeLookup (ex_wf None []) ex_status) ex_world of
     (w', t, e) \<Rightarrow>
       new_calls ex_world w' = [CallRecursiveNodeHandler ''start-node''] \<and>
       GetPhase (tinfo t) = EPhaseSuccess \<and>
       GetInfo (tinfo t) = Some \<lparr>OutputInfo = None\<rparr> \<and>
       e = None"
proof -
  let ?st = "\<lparr>NodePhase = NodePhaseComplete, Err = None\<rparr>"
  have r: "RecursiveNodeHandler (nodeExecutor (ex_handler (Inr ?st) None)) sw nl (StartNode sw) = Inr ?st"
    for sw nl
    by (simp add: ex_handler_def)
  have c: "IsComplete ?st"
    by (simp add: IsComplete_def)
  have b: "GetOutputBindings (ex_wf None []) = []"
    by (simp add: ex_wf_def)
  show ?thesis
    using handleSubWorkflow_complete_without_outputs
            [OF r c b, where d = ex_decls and nCtx = "ex_nCtx None None (Inr \<lparr>Exists = True\<rparr>) None"
              and w = ex_world and nl = "NewNodeLookup (ex_wf None []) ex_status"]
    by (simp add: ex_wf_def split: prod.splits)
qed

text \<open>
  Claim C4. The state is complete, the sub-workflow has output bindings, the node lookup
  yields the status of the end node, and the head of the outputs file of the end node
  succeeds with metadata that says the file does not exist. Then
  \<^verbatim>\<open>handleSubWorkflow\<close> returns the transition Failed (not Running, not the unknown
  transition) whose message ends with the path of the missing outputs file, returns no
  error, and calls no copy.
\<close>

theorem handleSubWorkflow_missing_outputs_file:
  assumes "RecursiveNodeHandler (nodeExecutor s) subworkflow nl (StartNode subworkflow) = Inr state"
    and "IsComplete state"
    and "GetOutputBindings subworkflow \<noteq> []"
    and "NodeLookup_GetNodeExecutionStatus d nl (EndNodeID d) = Inr (Some endNodeStatus)"
    and "sourcePath = GetOutputsFile d (OutputDir endNodeStatus)"
    and "Head nCtx sourcePath = Inr metadata"
    and "\<not> Exists metadata"
  shows "case handleSubWorkflow d s nCtx subworkflow nl w of
           (w', t, e) \<Rightarrow>
             GetPhase (tinfo t) = EPhaseFailed \<and>
             GetPhase (tinfo t) \<noteq> EPhaseRunning \<and>
             t \<noteq> UnknownTransition \<and>
             GetErr (tinfo t) =
               Some \<lparr>Code = SubWorkflowExecutionFailed d,
                     Message = ''Subworkflow is expected to produce outputs but no outputs file was written to ''
                                 @ sourcePath @ ''.'',
                     Kind = ExecutionError_SYSTEM\<rparr> \<and>
             e = None \<and>
             new_calls w w' = [CallRecursiveNodeHandler (StartNode subworkflow),
                               CallNodeLookupStatus (EndNodeID d), CallHead sourcePath] \<and>
             (\<forall>src dst. CallCopyRaw src dst \<notin> set (new_calls w w'))"
  using assms
  by (auto simp: handleSubWorkflow_def Let_def call_def new_calls_def test_defs phase_defs)

theorem handleSubWorkflow_missing_outputs_file_witness:
  "case handleSubWorkflow ex_decls (ex_handler (Inr \<lparr>NodePhase = NodePhaseComplete, Err = None\<rparr>) None)
          (ex_nCtx None None (Inr \<lparr>Exists = False\<rparr>) None) (ex_wf None [(''out'', ''A.result'')])
          (NewNodeLookup (ex_wf None [(''out'', ''A.result'')]) ex_status) ex_world of
     (w', t, e) \<Rightarrow>
       GetPhase (tinfo t) = EPhaseFailed \<and>
       map_option Message (GetErr (tinfo t)) =
         Some ''Subworkflow is expected to produce outputs but no outputs file was written to s3://bucket/n0/end/outputs.pb.'' \<and>
       e = None \<and>
       new_calls ex_world w' =
         [CallRecursiveNodeHandler ''start-node'', CallNodeLookupStatus ''end-node'',
          CallHead ''s3://bucket/n0/end/outputs.pb'']"
proof -
  let ?st = "\<lparr>NodePhase = NodePhaseComplete, Err = None\<rparr>"
  let ?sw = "ex_wf None [(''out'', ''A.result'')]"
  let ?nCtx = "ex_nCtx None None (Inr \<lparr>Exists = False\<rparr>) None"
  have r: "RecursiveNodeHandler (nodeExecutor (ex_handler (Inr ?st) None)) ?sw nl (StartNode ?sw) = Inr ?st"
    for nl
    by (simp add: ex_handler_def)
  have c: "IsComplete ?st"
    by (simp add: IsComplete_def)
  have b: "GetOutputBindings ?sw \<noteq> []"
    by (simp add: ex_wf_def)
  have l: "NodeLookup_GetNodeExecutionStatus ex_decls (NewNodeLookup ?sw ex_status) (EndNodeID ex_decls)
             = Inr (Some (emptyNodeStatus\<lparr>OutputDir := ''s3://bucket/n0/end''\<rparr>))"
    by (simp add: ex_decls_def NewNodeLookup_def ex_status_def)
  have p: "''s3://bucket/n0/end/outputs.pb''
             = GetOutputsFile ex_decls (OutputDir (emptyNodeStatus\<lparr>OutputDir := ''s3://bucket/n0/end''\<rparr>))"
    by (simp add: ex_decls_def)
  have h: "Head ?nCtx ''s3://bucket/n0/end/outputs.pb'' = Inr \<lparr>Exists = False\<rparr>"
    by (simp add: ex_nCtx_def)
  have x: "\<not> Exists \<lparr>Exists = False\<rparr>"
    by simp
  show ?thesis
    using handleSubWorkflow_missing_outputs_file [OF r c b l p h x, where w = ex_world]
    by (simp add: ex_wf_def ex_decls_def split: prod.splits)
qed

text \<open>
  Claim C5 does not hold of the code. Here the state is complete, the sub-workflow has an
  output binding, the end node's status is found and the head of its outputs file returns
  the error \<open>connection reset\<close>: \<^verbatim>\<open>handleSubWorkflow\<close> returns the undefined phase
  with no error at all, so the error of the store is lost.
\<close>

theorem handleSubWorkflow_head_error_dropped:
  "Head (ex_nCtx None None (Inl (GoError ''connection reset'')) None) ''s3://bucket/n0/end/outputs.pb''
     = Inl (GoError ''connection reset'') \<and>
   handleSubWorkflow ex_decls (ex_handler (Inr \<lparr>NodePhase = NodePhaseComplete, Err = None\<rparr>) None)
       (ex_nCtx None None (Inl (GoError ''connection reset'')) None) (ex_wf None [(''out'', ''A.result'')])
       (NewNodeLookup (ex_wf None [(''out'', ''A.result'')]) ex_status) ex_world
     = (ex_world\<lparr>trace := [CallRecursiveNodeHandler ''start-node'', CallNodeLookupStatus ''end-node'',
                             CallHead ''s3://bucket/n0/end/outputs.pb'']\<rparr>,
        DoTransition TransitionTypeEphemeral PhaseInfoUndefined, None)"
  by (simp add: handleSubWorkflow_def Let_def call_def test_defs ex_decls_def ex_status_def ex_world_def
      ex_wf_def ex_handler_def ex_nCtx_def NewNodeLookup_def emptyNodeStatus_def)

subsection \<open>The aggregate result PartiallyComplete\<close>

text \<open>
  Claim C6. When the recursive executor returns a partially complete state,
  \<^verbatim>\<open>handleSubWorkflow\<close> calls the re-enqueue callback exactly once. If the callback
  returns no error the transition is Running; if it returns an error the result is the
  unknown transition with that error. The transition is never Succeeded and never Failed.
\<close>

theorem handleSubWorkflow_partially_complete_enqueues:
  assumes "RecursiveNodeHandler (nodeExecutor s) subworkflow nl (StartNode subworkflow) = Inr state"
    and "PartiallyComplete state"
  shows "case handleSubWorkflow d s nCtx subworkflow nl w of
           (w', t, e) \<Rightarrow>
             new_calls w w' = [CallRecursiveNodeHandler (StartNode subworkflow), CallEnqueueOwner] \<and>
             count_list (new_calls w w') CallEnqueueOwner = 1 \<and>
             (case EnqueueOwnerFunc nCtx of
                None \<Rightarrow> t = DoTransition TransitionTypeEphemeral (PhaseInfoRunning None) \<and>
                        GetPhase (tinfo t) = EPhaseRunning \<and> e = None
              | Some x \<Rightarrow> t = UnknownTransition \<and> e = Some x) \<and>
             GetPhase (tinfo t) \<noteq> EPhaseSuccess \<and>
             GetPhase (tinfo t) \<noteq> EPhaseFailed"
  using assms
  by (auto simp: handleSubWorkflow_def Let_def call_def new_calls_def test_defs phase_defs
      split: option.splits)

theorem handleSubWorkflow_partially_complete_enqueues_witness:
  "(case handleSubWorkflow ex_decls (ex_handler (Inr \<lparr>NodePhase = NodePhaseSuccess, Err = None\<rparr>) None)
           (ex_nCtx None None (Inr \<lparr>Exists = True\<rparr>) None) (ex_wf None [])
           (NewNodeLookup (ex_wf None []) ex_status) ex_world of
      (w', t, e) \<Rightarrow>
        new_calls ex_world w' = [CallRecursiveNodeHandler ''start-node'', CallEnqueueOwner] \<and>
        GetPhase (tinfo t) = EPhaseRunning \<and> e = None) \<and>
   (case handleSubWorkflow ex_decls (ex_handler (Inr \<lparr>NodePhase = NodePhaseSuccess, Err = None\<rparr>) None)
           (ex_nCtx None None (Inr \<lparr>Exists = True\<rparr>) (Some (GoError ''queue is shut down''))) (ex_wf None [])
           (NewNodeLookup (ex_wf None []) ex_status) ex_world of
      (w', t, e) \<Rightarrow>
        new_calls ex_world w' = [CallRecursiveNodeHandler ''start-node'', CallEnqueueOwner] \<and>
        t = UnknownTransition \<and> e = Some (GoError ''queue is shut down''))"
proof -
  let ?st = "\<lparr>NodePhase = NodePhaseSuccess, Err = None\<rparr>"
  have r: "RecursiveNodeHandler (nodeExecutor (ex_handler (Inr ?st) None)) sw nl (StartNode sw) = Inr ?st"
    for sw nl
    by (simp add: ex_handler_def)
  have c: "PartiallyComplete ?st"
    by (simp add: PartiallyComplete_def)
  show ?thesis
    using handleSubWorkflow_partially_complete_enqueues
            [OF r c, where d = ex_decls and nCtx = "ex_nCtx None None (Inr \<lparr>Exists = True\<rparr>) None"
              and subworkflow = "ex_wf None []" and w = ex_world
              and nl = "NewNodeLookup (ex_wf None []) ex_status"]
      handleSubWorkflow_partially_complete_enqueues
            [OF r c, where d = ex_decls
              and nCtx = "ex_nCtx None None (Inr \<lparr>Exists = True\<rparr>) (Some (GoError ''queue is shut down''))"
              and subworkflow = "ex_wf None []" and w = ex_world
              and nl = "NewNodeLookup (ex_wf None []) ex_status"]
    by (simp add: ex_wf_def ex_nCtx_def split: prod.splits)
qed

subsection \<open>Abort\<close>

text \<open>
  Claim C9. The node refers to a sub-workflow \<open>subID\<close>. If the execution context does not
  find it, \<^verbatim>\<open>HandleAbort\<close> returns the error of the resolution and does not call the
  abort of the executor. If it finds it, \<^verbatim>\<open>HandleAbort\<close> calls the abort of the executor
  from the start node and returns exactly what that call returns.
\<close>

theorem HandleAbort_propagates_errors:
  "(GetSubWorkflowRef nCtx = Some subID \<and> FindSubWorkflow nCtx subID = None \<longrightarrow>
      HandleAbort s nCtx reason w
        = Return (w, Some (GoError (''failed to find sub workflow with ID ['' @ subID @ '']''))) \<and>
      (\<forall>w' e. HandleAbort s nCtx reason w = Return (w', e) \<longrightarrow>
         (\<forall>n r. CallAbortHandler n r \<notin> set (new_calls w w')))) \<and>
   (GetSubWorkflowRef nCtx = Some subID \<and> FindSubWorkflow nCtx subID = Some subWorkflow \<longrightarrow>
      HandleAbort s nCtx reason w
        = Return (w\<lparr>trace := trace w @ [CallAbortHandler (StartNode subWorkflow) reason]\<rparr>,
                  AbortHandler (nodeExecutor s) subWorkflow (NewNodeLookup subWorkflow (NodeStatus_of w))
                    (StartNode subWorkflow) reason))"
  by (simp add: HandleAbort_def GetSubWorkflow_def call_def new_calls_def Let_def)

theorem HandleAbort_propagates_errors_witness:
  "HandleAbort (ex_handler (Inr \<lparr>NodePhase = NodePhaseRunning, Err = None\<rparr>) (Some (GoError ''abort failed'')))
     (ex_nCtx None None (Inr \<lparr>Exists = True\<rparr>) None) ''timeout'' ex_world
     = Return (ex_world, Some (GoError ''failed to find sub workflow with ID [sub]'')) \<and>
   HandleAbort (ex_handler (Inr \<lparr>NodePhase = NodePhaseRunning, Err = None\<rparr>) (Some (GoError ''abort failed'')))
     (ex_nCtx (Some (ex_wf None [])) None (Inr \<lparr>Exists = True\<rparr>) None) ''timeout'' ex_world
     = Return (ex_world\<lparr>trace := [CallAbortHandler ''start-node'' ''timeout'']\<rparr>,
               Some (GoError ''abort failed''))"
proof -
  let ?s = "ex_handler (Inr \<lparr>NodePhase = NodePhaseRunning, Err = None\<rparr>) (Some (GoError ''abort failed''))"
  let ?n1 = "ex_nCtx None None (Inr \<lparr>Exists = True\<rparr>) None"
  let ?n2 = "ex_nCtx (Some (ex_wf None [])) None (Inr \<lparr>Exists = True\<rparr>) None"
  have a: "GetSubWorkflowRef ?n1 = Some ''sub'' \<and> FindSubWorkflow ?n1 ''sub'' = None"
    by (simp add: ex_nCtx_def)
  have b: "GetSubWorkflowRef ?n2 = Some ''sub'' \<and> FindSubWorkflow ?n2 ''sub'' = Some (ex_wf None [])"
    by (simp add: ex_nCtx_def)
  show ?thesis
    using HandleAbort_propagates_errors [of ?n1 "''sub''" ?s "''timeout''" ex_world] a
      HandleAbort_propagates_errors [of ?n2 "''sub''" ?s "''timeout''" ex_world "ex_wf None []"] b
    by (simp add: ex_wf_def ex_world_def ex_handler_def)
qed

subsection \<open>The node lookup\<close>

text \<open>One round of the loop, for each way it can go.\<close>

lemma GetNodeExecutionStatus_ok:
  "StatusLookupError d n = None \<Longrightarrow>
     GetNodeExecutionStatus d status n = (touch n status, Inr (childStatus status n))"
  by (auto simp: GetNodeExecutionStatus_def touch_def childStatus_def map_upd_triv split: option.splits)

lemma GetNodeExecutionStatus_err:
  "StatusLookupError d n = Some e \<Longrightarrow> GetNodeExecutionStatus d status n = (status, Inl e)"
  by (simp add: GetNodeExecutionStatus_def)

lemma setters_stamp:
  "SetParentAttempts n a (SetUniqueNodeID n (Some newID)
     (SetUniqueParentNodeID n (UniqueNodeID (touch n status)) (touch n status))) = stamp n newID a status"
  by (simp add: SetParentAttempts_def SetUniqueNodeID_def SetUniqueParentNodeID_def stamp_def touch_def
      childStatus_def)

lemma touch_touch: "touch n (touch n st) = touch n st"
  by (simp add: touch_def childStatus_def)

lemma touch_stamp: "touch n (stamp n i a st) = stamp n i a st"
  by (simp add: touch_def stamp_def childStatus_def)

lemma stamp_stamp: "stamp n i a (stamp n i a st) = stamp n i a st"
  by (simp add: stamp_def childStatus_def)

lemma stamp_touch_commute: "m \<noteq> n \<Longrightarrow> stamp n i a (touch m st) = touch m (stamp n i a st)"
  by (simp add: stamp_def touch_def childStatus_def fun_upd_twist)

lemma stamp_stamp_commute: "m \<noteq> n \<Longrightarrow> stamp n i a (stamp m j b st) = stamp m j b (stamp n i a st)"
  by (simp add: stamp_def childStatus_def fun_upd_twist)

lemma stamp_fixed_touch: "stamp n i a st = st \<Longrightarrow> touch n st = st"
  by (metis touch_stamp)

lemma range_Cons_ok:
  "StatusLookupError d n = None \<Longrightarrow> ComputeUniqueIDForNode d n p att = Inr newID \<Longrightarrow>
   fetchNodeLookup_range d nCtx (Some p) att (n # ns) st =
     fetchNodeLookup_range d nCtx (Some p) att ns (stamp n newID (CurrentAttempt nCtx) st)"
  by (simp add: fetchNodeLookup_range.simps(2) GetNodeExecutionStatus_ok setters_stamp)

lemma range_Cons_compute_err:
  "StatusLookupError d n = None \<Longrightarrow> ComputeUniqueIDForNode d n p att = Inl e \<Longrightarrow>
   fetchNodeLookup_range d nCtx (Some p) att (n # ns) st = Return (touch n st, Some e)"
  by (simp add: fetchNodeLookup_range.simps(2) GetNodeExecutionStatus_ok)

lemma range_Cons_lookup_err:
  "StatusLookupError d n = Some e \<Longrightarrow>
   fetchNodeLookup_range d nCtx pid att (n # ns) st = Return (st, Some e)"
  by (simp add: fetchNodeLookup_range.simps(2) GetNodeExecutionStatus_err)

lemma range_Cons_panic:
  "StatusLookupError d n = None \<Longrightarrow>
   fetchNodeLookup_range d nCtx None att (n # ns) st = Panic"
  by (simp add: fetchNodeLookup_range.simps(2) GetNodeExecutionStatus_ok)

lemma range_preserves_stamp:
  assumes "fetchNodeLookup_range d nCtx (Some p) att ns st = Return (st1, e)"
    and "ComputeUniqueIDForNode d n p att = Inr i"
    and "stamp n i (CurrentAttempt nCtx) st = st"
  shows "stamp n i (CurrentAttempt nCtx) st1 = st1"
  using assms
proof (induction ns arbitrary: st)
  case Nil
  then show ?case by simp
next
  case (Cons m ms)
  show ?case
  proof (cases "StatusLookupError d m")
    case (Some e')
    with Cons.prems show ?thesis by (simp add: range_Cons_lookup_err)
  next
    case None
    show ?thesis
    proof (cases "ComputeUniqueIDForNode d m p att")
      case (Inl e')
      with None Cons.prems have st1: "st1 = touch m st" by (simp add: range_Cons_compute_err)
      show ?thesis
      proof (cases "m = n")
        case True
        with Cons.prems(3) st1 show ?thesis by (simp add: stamp_fixed_touch)
      next
        case False
        with Cons.prems(3) st1 show ?thesis by (simp add: stamp_touch_commute)
      qed
    next
      case (Inr j)
      with None Cons.prems(1)
      have run: "fetchNodeLookup_range d nCtx (Some p) att ms (stamp m j (CurrentAttempt nCtx) st) = Return (st1, e)"
        by (simp add: range_Cons_ok)
      have "stamp n i (CurrentAttempt nCtx) (stamp m j (CurrentAttempt nCtx) st) = stamp m j (CurrentAttempt nCtx) st"
      proof (cases "m = n")
        case True
        with Inr Cons.prems(2) have "j = i" by simp
        with True show ?thesis by (simp add: stamp_stamp)
      next
        case False
        with Cons.prems(3) show ?thesis by (simp add: stamp_stamp_commute)
      qed
      with Cons.IH [OF run Cons.prems(2)] show ?thesis .
    qed
  qed
qed

lemma range_idem:
  assumes "fetchNodeLookup_range d nCtx pid att ns st = Return (st1, e)"
  shows "fetchNodeLookup_range d nCtx pid att ns st1 = Return (st1, e)"
  using assms
proof (induction ns arbitrary: st)
  case Nil
  then show ?case by simp
next
  case (Cons n ns)
  show ?case
  proof (cases "StatusLookupError d n")
    case (Some e')
    with Cons.prems have "st1 = st" and "e = Some e'"
      by (simp_all add: range_Cons_lookup_err)
    with Some show ?thesis by (simp add: range_Cons_lookup_err)
  next
    case lk: None
    show ?thesis
    proof (cases pid)
      case None
      with lk Cons.prems show ?thesis by (simp add: range_Cons_panic)
    next
      case (Some p)
      show ?thesis
      proof (cases "ComputeUniqueIDForNode d n p att")
        case (Inl e')
        with lk Some Cons.prems have "st1 = touch n st" and "e = Some e'"
          by (simp_all add: range_Cons_compute_err)
        with lk Some Inl show ?thesis
          by (simp add: range_Cons_compute_err touch_touch)
      next
        case (Inr i)
        let ?st' = "stamp n i (CurrentAttempt nCtx) st"
        from lk Some Inr Cons.prems
        have run: "fetchNodeLookup_range d nCtx (Some p) att ns ?st' = Return (st1, e)"
          by (simp add: range_Cons_ok)
        have fixed: "stamp n i (CurrentAttempt nCtx) st1 = st1"
          by (rule range_preserves_stamp [OF run Inr]) (simp add: stamp_stamp)
        from Cons.IH [of ?st'] run Some have "fetchNodeLookup_range d nCtx (Some p) att ns st1 = Return (st1, e)"
          by simp
        with lk Some Inr fixed show ?thesis by (simp add: range_Cons_ok)
      qed
    qed
  qed
qed

lemma range_parent:
  "fetchNodeLookup_range d nCtx pid att ns st = Return (st1, e) \<Longrightarrow> UniqueNodeID st1 = UniqueNodeID st"
proof (induction ns arbitrary: st)
  case Nil
  then show ?case by simp
next
  case (Cons n ns)
  then show ?case
    by (auto simp: fetchNodeLookup_range.simps(2) GetNodeExecutionStatus_def SetParentAttempts_def
        SetUniqueNodeID_def SetUniqueParentNodeID_def split: option.splits sum.splits dest!: Cons.IH)
qed

text \<open>The concrete tick: the node lookup built once on \<open>ex_status\<close>.\<close>

lemma Itoa_zero: "Itoa 0 = ''0''"
  by code_simp

lemma ex_fetch:
  "fetchNodeLookupForSubWorkflow ex_decls (ex_nCtx sw put hdr enq) (ex_wf f b) ex_world
     = Return (ex_world\<lparr>NodeStatus_of := ex_status1\<rparr>, Inr (NewNodeLookup (ex_wf f b) ex_status1))"
proof -
  have u: "UniqueNodeID ex_status = Some ''n0''"
    by (simp add: ex_status_def)
  have a: "CurrentAttempt (ex_nCtx sw put hdr enq) = 0"
    by (simp add: ex_nCtx_def)
  have l: "StatusLookupError ex_decls n = None" for n
    by (simp add: ex_decls_def)
  have c: "ComputeUniqueIDForNode ex_decls n ''n0'' ''0'' = Inr (''n0-0-'' @ n)" for n
    by (simp add: ex_decls_def)
  have "fetchNodeLookup_range ex_decls (ex_nCtx sw put hdr enq) (Some ''n0'') ''0''
          [''start-node'', ''A'', ''end-node''] ex_status = Return (ex_status1, None)"
    by (simp add: range_Cons_ok [OF l c] a ex_status1_def)
  then show ?thesis
    by (simp add: fetchNodeLookupForSubWorkflow_def Let_def u a Itoa_zero ex_wf_def ex_world_def)
qed

text \<open>
  Claim C8. Calling \<^verbatim>\<open>fetchNodeLookupForSubWorkflow\<close> a second time, with the same
  attempt and on the status the first call left, returns what the first call returned and
  leaves the status as it was: every child keeps the unique node ID, the unique parent ID
  and the parent attempts that the first call gave it.
\<close>

theorem fetchNodeLookupForSubWorkflow_idempotent:
  assumes "fetchNodeLookupForSubWorkflow d nCtx subWorkflow w = Return (w1, r)"
  shows "fetchNodeLookupForSubWorkflow d nCtx subWorkflow w1 = Return (w1, r)"
proof -
  let ?att = "Itoa (uint (CurrentAttempt nCtx))"
  from assms obtain st1 e where
    run: "fetchNodeLookup_range d nCtx (UniqueNodeID (NodeStatus_of w)) ?att (GetNodes subWorkflow) (NodeStatus_of w)
            = Return (st1, e)"
    and w1: "w1 = w\<lparr>NodeStatus_of := st1\<rparr>"
    and r: "r = (case e of Some x \<Rightarrow> Inl x | None \<Rightarrow> Inr (NewNodeLookup subWorkflow st1))"
    by (auto simp: fetchNodeLookupForSubWorkflow_def Let_def split: outcome.splits option.splits)
  have par: "UniqueNodeID st1 = UniqueNodeID (NodeStatus_of w)"
    using run by (rule range_parent)
  have "fetchNodeLookup_range d nCtx (UniqueNodeID st1) ?att (GetNodes subWorkflow) st1 = Return (st1, e)"
    unfolding par using run by (rule range_idem)
  with w1 r show ?thesis
    by (simp add: fetchNodeLookupForSubWorkflow_def Let_def split: option.splits)
qed

theorem fetchNodeLookupForSubWorkflow_idempotent_witness:
  "fetchNodeLookupForSubWorkflow ex_decls (ex_nCtx None None (Inr \<lparr>Exists = True\<rparr>) None) (ex_wf None [])
      ex_world
     = Return (ex_world\<lparr>NodeStatus_of := ex_status1\<rparr>, Inr (NewNodeLookup (ex_wf None []) ex_status1)) \<and>
   fetchNodeLookupForSubWorkflow ex_decls (ex_nCtx None None (Inr \<lparr>Exists = True\<rparr>) None) (ex_wf None [])
      (ex_world\<lparr>NodeStatus_of := ex_status1\<rparr>)
     = Return (ex_world\<lparr>NodeStatus_of := ex_status1\<rparr>, Inr (NewNodeLookup (ex_wf None []) ex_status1)) \<and>
   map_option UniqueNodeID (SubNodeStatus ex_status1 ''A'') = Some (Some ''n0-0-A'')"
  using fetchNodeLookupForSubWorkflow_idempotent
          [OF ex_fetch, of None None "Inr \<lparr>Exists = True\<rparr>" None None "[]"]
  by (simp add: ex_fetch ex_status1_def stamp_def)

subsection \<open>The entry point of a status check\<close>

text \<open>
  Claim C7 does not hold of the code: \<^verbatim>\<open>CheckSubWorkflowStatus\<close> goes through
  \<^verbatim>\<open>startAndHandleSubWorkflow\<close>, as \<^verbatim>\<open>StartSubWorkflow\<close> does. On the concrete tick,
  with a running sub-workflow, a status check reads the inputs of the node and sets them on
  the start node before it calls the recursive executor.
\<close>

theorem CheckSubWorkflowStatus_sets_inputs:
  "CheckSubWorkflowStatus ex_decls (ex_handler (Inr \<lparr>NodePhase = NodePhaseRunning, Err = None\<rparr>) None)
      (ex_nCtx (Some (ex_wf None [])) None (Inr \<lparr>Exists = True\<rparr>) None) ex_world
     = Return (\<lparr>trace = [CallInputReaderGet, CallSetInputsForStartNode (Some [(''x'', ''5'')]),
                          CallRecursiveNodeHandler ''start-node''],
                 NodeStatus_of = ex_status1\<rparr>,
               DoTransition TransitionTypeEphemeral (PhaseInfoRunning None), None)"
proof -
  have g: "GetSubWorkflow (ex_nCtx (Some (ex_wf None [])) None (Inr \<lparr>Exists = True\<rparr>) None)
             = Return (Inr (ex_wf None []))"
    by (simp add: GetSubWorkflow_def ex_nCtx_def)
  show ?thesis
    by (simp add: CheckSubWorkflowStatus_def g ex_fetch)
      (simp add: startAndHandleSubWorkflow_def handleSubWorkflow_def Let_def call_def test_defs
        ex_nCtx_def ex_handler_def ex_wf_def ex_world_def)
qed

end
